theory Spec2Isabelle
  imports Main
begin

section \<open>The database bootstrap script \<^verbatim>\<open>src/dev/init_db.py\<close>\<close>

text \<open>
  The script talks to a PostgreSQL server through the psycopg2 driver. Nothing of the
  driver or of the server is part of the repository, so both are a parameter of the
  model: a deterministic machine that answers each driver call with a reply (a return
  value or a raised exception) and moves to a new state of the world. The script itself
  is embedded as a function that threads a run state (the world, the lines printed so
  far, the driver calls made so far with their replies) through its statements, with
  every exception an explicit branch.
\<close>

subsection \<open>Module constants (lines 6-10)\<close>

definition DB_HOST :: string where "DB_HOST = ''localhost''"
definition DB_PORT :: string where "DB_PORT = ''5432''"
definition DB_USER :: string where "DB_USER = ''postgres''"
definition DB_PASSWORD :: string where "DB_PASSWORD = ''password''"
definition TARGET_DB :: string where "TARGET_DB = ''idem_test''"

text \<open>
  \<^verbatim>\<open>psycopg2.extensions.ISOLATION_LEVEL_AUTOCOMMIT\<close> is a constant of the driver (line 2
  imports it); its value in psycopg2 is 0.
\<close>

definition ISOLATION_LEVEL_AUTOCOMMIT :: nat where "ISOLATION_LEVEL_AUTOCOMMIT = 0"

subsection \<open>Exceptions, driver calls and replies\<close>

text \<open>
  Only two classes of exception are told apart by the script: \<^verbatim>\<open>ImportError\<close> (with its
  subclass \<^verbatim>\<open>ModuleNotFoundError\<close>), which the handler of line 53 catches, and every other
  subclass of \<^verbatim>\<open>Exception\<close>. Both are caught by \<^verbatim>\<open>except Exception\<close> (line 26). Each
  carries the text that \<^verbatim>\<open>str(e)\<close> yields.
\<close>

datatype exn = ImportError string | OtherError string

fun str :: "exn \<Rightarrow> string" where
  "str (ImportError m) = m"
| "str (OtherError m) = m"

text \<open>
  The row of the one-column query of line 32 is the 1-tuple holding that column;
  \<^verbatim>\<open>fetchone\<close> returns such a tuple or \<^verbatim>\<open>None\<close>.
\<close>

type_synonym row = int

text \<open>
  The driver calls of the script. \<open>Connect\<close> carries the keyword arguments
  \<^verbatim>\<open>dbname, user, password, host, port\<close> in this order. There is one connection and one
  cursor, so the handles are implicit.
\<close>

datatype request =
    Connect string string string string string
  | SetIsolationLevel nat
  | Cursor
  | Execute string
  | Fetchone
  | CursorClose
  | ConnectionClose

text \<open>
  A call either raises or returns. The returned value is looked at for \<^verbatim>\<open>fetchone\<close>
  only (\<open>None\<close> is Python's \<^verbatim>\<open>None\<close>).
\<close>

datatype reply = Raises exn | Returns "row option"

type_synonym 'w driver = "request \<Rightarrow> 'w \<Rightarrow> reply \<times> 'w"

subsection \<open>Run state\<close>

record 'w run =
  world :: 'w
  console :: "string list"
  trace :: "(request \<times> reply) list"

definition start :: "'w \<Rightarrow> 'w run" where
  "start w = \<lparr>world = w, console = [], trace = []\<rparr>"

definition print :: "string \<Rightarrow> 'w run \<Rightarrow> 'w run" where
  "print line s = s\<lparr>console := console s @ [line]\<rparr>"

definition invoke :: "'w driver \<Rightarrow> request \<Rightarrow> 'w run \<Rightarrow> reply \<times> 'w run" where
  "invoke d c s =
     (case d c (world s) of
        (r, w') \<Rightarrow> (r, s\<lparr>world := w', trace := trace s @ [(c, r)]\<rparr>))"

text \<open>How a run of \<^verbatim>\<open>init_db\<close> ends: normal return, \<^verbatim>\<open>sys.exit(n)\<close>, or an exception
  that leaves the function.\<close>

datatype outcome = Returned | SysExit int | Raised exn

text \<open>
  The status of the process when the outcome reaches the top level: 0 after a normal
  end, the argument of \<^verbatim>\<open>sys.exit\<close>, and 1 when the interpreter ends on an exception
  that nothing caught.
\<close>

fun exit_status :: "outcome \<Rightarrow> int" where
  "exit_status Returned = 0"
| "exit_status (SysExit n) = n"
| "exit_status (Raised e) = 1"

text \<open>The process ended on an exception that nothing caught.\<close>

fun uncaught :: "outcome \<Rightarrow> bool" where
  "uncaught (Raised e) = True"
| "uncaught oc = False"

subsection \<open>The f-strings of the script\<close>

definition squote :: "string \<Rightarrow> string" where
  "squote s = CHR 0x27 # s @ [CHR 0x27]"

definition msg_connecting :: string where
  "msg_connecting = ''Connecting to PostgreSQL at '' @ DB_HOST @ '':'' @ DB_PORT @ ''...''"

definition msg_connect_error :: "exn \<Rightarrow> string" where
  "msg_connect_error e = ''Error connecting to Postgres: '' @ str e"

definition msg_tip :: string where
  "msg_tip = ''Tip: Ensure docker container is running (docker-compose up -d)''"

definition select_sql :: string where
  "select_sql = ''SELECT 1 FROM pg_catalog.pg_database WHERE datname = '' @ squote TARGET_DB"

definition create_sql :: string where
  "create_sql = ''CREATE DATABASE '' @ TARGET_DB"

definition msg_creating :: string where
  "msg_creating = ''Database '' @ squote TARGET_DB @ '' does not exist. Creating...''"

definition msg_created :: string where
  "msg_created = ''Database '' @ squote TARGET_DB @ '' created successfully.''"

definition msg_exists :: string where
  "msg_exists = ''Database '' @ squote TARGET_DB @ '' already exists.''"

definition msg_done :: string where
  "msg_done = ''Done.''"

definition msg_no_module :: string where
  "msg_no_module = ''Error: 'psycopg2' module not found.''"

definition msg_install :: string where
  "msg_install = ''Please install it using: pip install psycopg2-binary''"

subsection \<open>\<^verbatim>\<open>init_db\<close> (lines 12-48)\<close>

text \<open>The call of lines 17-23, to the maintenance database \<^verbatim>\<open>postgres\<close>.\<close>

definition connect_request :: request where
  "connect_request = Connect ''postgres'' DB_USER DB_PASSWORD DB_HOST DB_PORT"

text \<open>The body of the \<^verbatim>\<open>try\<close> of lines 17-25; \<open>Some e\<close> is the exception that left it.\<close>

definition connect_block :: "'w driver \<Rightarrow> 'w run \<Rightarrow> exn option \<times> 'w run" where
  "connect_block d s =
     (case invoke d connect_request s of
        (Raises e, s1) \<Rightarrow> (Some e, s1)
      | (Returns v1, s1) \<Rightarrow>
          (case invoke d (SetIsolationLevel ISOLATION_LEVEL_AUTOCOMMIT) s1 of
             (Raises e, s2) \<Rightarrow> (Some e, s2)
           | (Returns v2, s2) \<Rightarrow>
               (case invoke d Cursor s2 of
                  (Raises e, s3) \<Rightarrow> (Some e, s3)
                | (Returns v3, s3) \<Rightarrow> (None, s3))))"

text \<open>
  \<^verbatim>\<open>not exists\<close> (line 35): \<^verbatim>\<open>None\<close> is false, and a row, a non-empty tuple, is true.
\<close>

fun truthy :: "row option \<Rightarrow> bool" where
  "truthy None = False"
| "truthy (Some r) = True"

text \<open>Lines 32-40: the existence query and the conditional creation.\<close>

definition check_and_create :: "'w driver \<Rightarrow> 'w run \<Rightarrow> exn option \<times> 'w run" where
  "check_and_create d s =
     (case invoke d (Execute select_sql) s of
        (Raises e, s1) \<Rightarrow> (Some e, s1)
      | (Returns v1, s1) \<Rightarrow>
          (case invoke d Fetchone s1 of
             (Raises e, s2) \<Rightarrow> (Some e, s2)
           | (Returns exists, s2) \<Rightarrow>
               if \<not> truthy exists then
                 (case invoke d (Execute create_sql) (print msg_creating s2) of
                    (Raises e, s3) \<Rightarrow> (Some e, s3)
                  | (Returns v3, s3) \<Rightarrow> (None, print msg_created s3))
               else (None, print msg_exists s2)))"

text \<open>Lines 42-43: \<^verbatim>\<open>cur.close()\<close>, then \<^verbatim>\<open>conn.close()\<close>.\<close>

definition release :: "'w driver \<Rightarrow> 'w run \<Rightarrow> exn option \<times> 'w run" where
  "release d s =
     (case invoke d CursorClose s of
        (Raises e, s1) \<Rightarrow> (Some e, s1)
      | (Returns v1, s1) \<Rightarrow>
          (case invoke d ConnectionClose s1 of
             (Raises e, s2) \<Rightarrow> (Some e, s2)
           | (Returns v2, s2) \<Rightarrow> (None, s2)))"

definition init_db :: "'w driver \<Rightarrow> 'w run \<Rightarrow> outcome \<times> 'w run" where
  "init_db d s0 =
     (case connect_block d (print msg_connecting s0) of
        (Some e, s1) \<Rightarrow> (SysExit 1, print msg_tip (print (msg_connect_error e) s1))
      | (None, s1) \<Rightarrow>
          (case check_and_create d s1 of
             (Some e, s2) \<Rightarrow> (Raised e, s2)
           | (None, s2) \<Rightarrow>
               (case release d s2 of
                  (Some e, s3) \<Rightarrow> (Raised e, s3)
                | (None, s3) \<Rightarrow> (Returned, print msg_done s3))))"

subsection \<open>The script as a program (lines 1-2 and 50-55)\<close>

text \<open>
  Lines 50-55: \<^verbatim>\<open>init_db()\<close> inside a \<^verbatim>\<open>try\<close> whose only handler is
  \<^verbatim>\<open>except ImportError\<close>. The handler prints two lines and the script ends normally.
  \<^verbatim>\<open>SystemExit\<close> and every other exception pass through.
\<close>

definition main :: "'w driver \<Rightarrow> 'w run \<Rightarrow> outcome \<times> 'w run" where
  "main d s =
     (case init_db d s of
        (Raised (ImportError m), s') \<Rightarrow> (Returned, print msg_install (print msg_no_module s'))
      | (oc, s') \<Rightarrow> (oc, s'))"

text \<open>
  The module is executed top to bottom. Lines 1-2 import the driver before anything else;
  when the driver is not installed, \<^verbatim>\<open>import psycopg2\<close> raises \<^verbatim>\<open>ModuleNotFoundError\<close>
  there, outside every \<^verbatim>\<open>try\<close>. Otherwise the module reaches line 50 and runs \<open>main\<close>.
\<close>

definition msg_module_not_found :: string where
  "msg_module_not_found = ''No module named '' @ squote ''psycopg2''"

definition script :: "bool \<Rightarrow> 'w driver \<Rightarrow> 'w \<Rightarrow> outcome \<times> 'w run" where
  "script psycopg2_installed d w =
     (if \<not> psycopg2_installed then (Raised (ImportError msg_module_not_found), start w)
      else main d (start w))"

subsection \<open>Reading a trace\<close>

fun statements :: "(request \<times> reply) list \<Rightarrow> string list" where
  "statements [] = []"
| "statements ((Execute q, r) # t) = q # statements t"
| "statements (c # t) = statements t"

definition creations :: "(request \<times> reply) list \<Rightarrow> nat" where
  "creations t = count_list (statements t) create_sql"

definition requests :: "(request \<times> reply) list \<Rightarrow> request list" where
  "requests t = map fst t"

fun is_raise :: "reply \<Rightarrow> bool" where
  "is_raise (Raises e) = True"
| "is_raise (Returns v) = False"

text \<open>The calls of a trace that raised.\<close>

definition failed :: "(request \<times> reply) list \<Rightarrow> request list" where
  "failed t = map fst (filter (\<lambda>cr. is_raise (snd cr)) t)"

text \<open>
  The statements of a trace, each with the mode its connection was in when the statement
  was sent: \<open>True\<close> for autocommit. A new connection is not in autocommit mode;
  \<^verbatim>\<open>set_isolation_level(n)\<close>, when it returns, puts it in autocommit mode exactly for
  \<open>n = ISOLATION_LEVEL_AUTOCOMMIT\<close>.
\<close>

fun modes :: "bool \<Rightarrow> (request \<times> reply) list \<Rightarrow> (string \<times> bool) list" where
  "modes ac [] = []"
| "modes ac ((Connect dbn u p h pt, r) # t) = modes False t"
| "modes ac ((SetIsolationLevel n, Returns v) # t) = modes (n = ISOLATION_LEVEL_AUTOCOMMIT) t"
| "modes ac ((Execute q, r) # t) = (q, ac) # modes ac t"
| "modes ac (cr # t) = modes ac t"

text \<open>The three calls of the \<^verbatim>\<open>try\<close> block of lines 17-25.\<close>

fun setup_request :: "request \<Rightarrow> bool" where
  "setup_request (Connect dbn u p h pt) = True"
| "setup_request (SetIsolationLevel n) = True"
| "setup_request Cursor = True"
| "setup_request c = False"

fun is_import_error :: "exn \<Rightarrow> bool" where
  "is_import_error (ImportError m) = True"
| "is_import_error (OtherError m) = False"

subsection \<open>Assumptions on the server\<close>

text \<open>
  \<open>dbs w\<close> is the set of names of the databases that exist on the server in the world
  \<open>w\<close>. A driver with its server \<^emph>\<open>honors\<close> the existence query and the creation
  statement when
  \<^item> a call that is not a statement, and the existence query, leave the set of databases
    as it is;
  \<^item> the row fetched right after the existence query is there exactly when the target
    exists;
  \<^item> the creation statement, when it returns, has added the target and nothing else, and
    when it raises has changed nothing.
\<close>

fun is_execute :: "request \<Rightarrow> bool" where
  "is_execute (Execute q) = True"
| "is_execute c = False"

definition honors :: "'w driver \<Rightarrow> ('w \<Rightarrow> string set) \<Rightarrow> bool" where
  "honors d dbs \<longleftrightarrow>
     (\<forall>c w. \<not> is_execute c \<longrightarrow> dbs (snd (d c w)) = dbs w) \<and>
     (\<forall>w. dbs (snd (d (Execute select_sql) w)) = dbs w) \<and>
     (\<forall>w v w' r w''. d (Execute select_sql) w = (Returns v, w') \<longrightarrow>
          d Fetchone w' = (Returns r, w'') \<longrightarrow> (r \<noteq> None) = (TARGET_DB \<in> dbs w)) \<and>
     (\<forall>w v w'. d (Execute create_sql) w = (Returns v, w') \<longrightarrow> dbs w' = insert TARGET_DB (dbs w)) \<and>
     (\<forall>w e w'. d (Execute create_sql) w = (Raises e, w') \<longrightarrow> dbs w' = dbs w)"

text \<open>
  A driver with its server is \<^emph>\<open>responsive\<close> when no call raises, except that the
  creation statement may raise when the target exists already.
\<close>

definition responsive :: "'w driver \<Rightarrow> ('w \<Rightarrow> string set) \<Rightarrow> bool" where
  "responsive d dbs \<longleftrightarrow>
     (\<forall>c w. \<not> is_execute c \<longrightarrow> \<not> is_raise (fst (d c w))) \<and>
     (\<forall>w. \<not> is_raise (fst (d (Execute select_sql) w))) \<and>
     (\<forall>w. TARGET_DB \<notin> dbs w \<longrightarrow> \<not> is_raise (fst (d (Execute create_sql) w)))"

subsection \<open>A reference server\<close>

text \<open>
  A small server on which the theorems below are instantiated. Its world is the catalog
  (the names of the databases) and the row the cursor holds; its configuration says
  whether the server can be reached and whether the user may create databases. It
  answers the two statements of the script as PostgreSQL does and rejects every other.
\<close>

record pg =
  catalog :: "string list"
  pending :: "row option"

record pg_config =
  reachable :: bool
  createdb_allowed :: bool

fun pg_sim :: "pg_config \<Rightarrow> pg driver" where
  "pg_sim cfg (Connect dbn u p h pt) w =
     (if reachable cfg then (Returns None, w)
      else (Raises (OtherError ''connection refused''), w))"
| "pg_sim cfg (Execute q) w =
     (if q = select_sql then
        (Returns None, w\<lparr>pending := (if TARGET_DB \<in> set (catalog w) then Some 1 else None)\<rparr>)
      else if q = create_sql then
        (if TARGET_DB \<in> set (catalog w) then
           (Raises (OtherError ''database already exists''), w)
         else if createdb_allowed cfg then
           (Returns None, w\<lparr>catalog := TARGET_DB # catalog w\<rparr>)
         else (Raises (OtherError ''permission denied to create database''), w))
      else (Raises (OtherError ''unsupported statement''), w))"
| "pg_sim cfg Fetchone w = (Returns (pending w), w\<lparr>pending := None\<rparr>)"
| "pg_sim cfg c w = (Returns None, w)"

definition pg_dbs :: "pg \<Rightarrow> string set" where
  "pg_dbs w = set (catalog w)"

definition pg_up :: pg_config where
  "pg_up = \<lparr>reachable = True, createdb_allowed = True\<rparr>"

definition pg_down :: pg_config where
  "pg_down = \<lparr>reachable = False, createdb_allowed = True\<rparr>"

definition pg_readonly :: pg_config where
  "pg_readonly = \<lparr>reachable = True, createdb_allowed = False\<rparr>"


definition fresh :: pg where
  "fresh = \<lparr>catalog = [''postgres''], pending = None\<rparr>"

definition prepared :: pg where
  "prepared = \<lparr>catalog = [''idem_test'', ''postgres''], pending = None\<rparr>"

section \<open>Properties\<close>

subsection \<open>The strings sent and printed\<close>

lemma select_sql_text:
  "select_sql = ''SELECT 1 FROM pg_catalog.pg_database WHERE datname = 'idem_test'' @ [CHR 0x27]"
  by (simp add: select_sql_def TARGET_DB_def squote_def)

lemma create_sql_text: "create_sql = ''CREATE DATABASE idem_test''"
  by (simp add: create_sql_def TARGET_DB_def)

lemma select_create_differ: "select_sql \<noteq> create_sql"
  by (simp add: select_sql_def create_sql_def)

lemma msg_differ:
  "msg_connecting \<noteq> msg_tip" "msg_connecting \<noteq> msg_creating"
  "msg_connecting \<noteq> msg_created" "msg_connecting \<noteq> msg_exists"
  "msg_connecting \<noteq> msg_done" "msg_connecting \<noteq> msg_no_module"
  "msg_connecting \<noteq> msg_install" "msg_tip \<noteq> msg_connecting"
  "msg_tip \<noteq> msg_creating" "msg_tip \<noteq> msg_created"
  "msg_tip \<noteq> msg_exists" "msg_tip \<noteq> msg_done"
  "msg_tip \<noteq> msg_no_module" "msg_tip \<noteq> msg_install"
  "msg_creating \<noteq> msg_connecting" "msg_creating \<noteq> msg_tip"
  "msg_creating \<noteq> msg_created" "msg_creating \<noteq> msg_exists"
  "msg_creating \<noteq> msg_done" "msg_creating \<noteq> msg_no_module"
  "msg_creating \<noteq> msg_install" "msg_created \<noteq> msg_connecting"
  "msg_created \<noteq> msg_tip" "msg_created \<noteq> msg_creating"
  "msg_created \<noteq> msg_exists" "msg_created \<noteq> msg_done"
  "msg_created \<noteq> msg_no_module" "msg_created \<noteq> msg_install"
  "msg_exists \<noteq> msg_connecting" "msg_exists \<noteq> msg_tip"
  "msg_exists \<noteq> msg_creating" "msg_exists \<noteq> msg_created"
  "msg_exists \<noteq> msg_done" "msg_exists \<noteq> msg_no_module"
  "msg_exists \<noteq> msg_install" "msg_done \<noteq> msg_connecting"
  "msg_done \<noteq> msg_tip" "msg_done \<noteq> msg_creating"
  "msg_done \<noteq> msg_created" "msg_done \<noteq> msg_exists"
  "msg_done \<noteq> msg_no_module" "msg_done \<noteq> msg_install"
  "msg_no_module \<noteq> msg_connecting" "msg_no_module \<noteq> msg_tip"
  "msg_no_module \<noteq> msg_creating" "msg_no_module \<noteq> msg_created"
  "msg_no_module \<noteq> msg_exists" "msg_no_module \<noteq> msg_done"
  "msg_no_module \<noteq> msg_install" "msg_install \<noteq> msg_connecting"
  "msg_install \<noteq> msg_tip" "msg_install \<noteq> msg_creating"
  "msg_install \<noteq> msg_created" "msg_install \<noteq> msg_exists"
  "msg_install \<noteq> msg_done" "msg_install \<noteq> msg_no_module"
  "msg_connect_error e \<noteq> msg_connecting" "msg_connecting \<noteq> msg_connect_error e"
  "msg_connect_error e \<noteq> msg_tip" "msg_tip \<noteq> msg_connect_error e"
  "msg_connect_error e \<noteq> msg_creating" "msg_creating \<noteq> msg_connect_error e"
  "msg_connect_error e \<noteq> msg_created" "msg_created \<noteq> msg_connect_error e"
  "msg_connect_error e \<noteq> msg_exists" "msg_exists \<noteq> msg_connect_error e"
  "msg_connect_error e \<noteq> msg_done" "msg_done \<noteq> msg_connect_error e"
  "msg_connect_error e \<noteq> msg_no_module" "msg_no_module \<noteq> msg_connect_error e"
  "msg_connect_error e \<noteq> msg_install" "msg_install \<noteq> msg_connect_error e"
  by (simp_all add: msg_connecting_def msg_connect_error_def msg_tip_def msg_creating_def
      msg_created_def msg_exists_def msg_done_def msg_no_module_def msg_install_def
      squote_def TARGET_DB_def DB_HOST_def DB_PORT_def)

lemmas sql_differ = select_create_differ select_create_differ[symmetric]

subsection \<open>The execution paths of \<^verbatim>\<open>init_db\<close>\<close>

text \<open>
  A run of \<^verbatim>\<open>init_db\<close> from a fresh process follows one of twelve paths, told apart by
  the replies of the driver. Each case gives the replies that select the path and the
  run it produces: how it ends, the world it leaves, the lines printed and the calls made.
\<close>

lemma init_db_paths
  [case_names connect_raises mode_raises cursor_raises select_raises fetch_raises create_raises
     created_cursor_close_raises created_connection_close_raises created
     exists_cursor_close_raises exists_connection_close_raises exists]:
  obtains
    e w1 where
      "d connect_request w = (Raises e, w1)"
      "init_db d (start w) =
         (SysExit 1, \<lparr>world = w1, console = [msg_connecting, msg_connect_error e, msg_tip],
            trace = [(connect_request, Raises e)]\<rparr>)"
  | v1 w1 e w2 where
      "d connect_request w = (Returns v1, w1)"
      "d (SetIsolationLevel ISOLATION_LEVEL_AUTOCOMMIT) w1 = (Raises e, w2)"
      "init_db d (start w) =
         (SysExit 1, \<lparr>world = w2, console = [msg_connecting, msg_connect_error e, msg_tip],
            trace = [(connect_request, Returns v1),
              (SetIsolationLevel ISOLATION_LEVEL_AUTOCOMMIT, Raises e)]\<rparr>)"
  | v1 w1 v2 w2 e w3 where
      "d connect_request w = (Returns v1, w1)"
      "d (SetIsolationLevel ISOLATION_LEVEL_AUTOCOMMIT) w1 = (Returns v2, w2)"
      "d Cursor w2 = (Raises e, w3)"
      "init_db d (start w) =
         (SysExit 1, \<lparr>world = w3, console = [msg_connecting, msg_connect_error e, msg_tip],
            trace = [(connect_request, Returns v1),
              (SetIsolationLevel ISOLATION_LEVEL_AUTOCOMMIT, Returns v2),
              (Cursor, Raises e)]\<rparr>)"
  | v1 w1 v2 w2 v3 w3 e w4 where
      "d connect_request w = (Returns v1, w1)"
      "d (SetIsolationLevel ISOLATION_LEVEL_AUTOCOMMIT) w1 = (Returns v2, w2)"
      "d Cursor w2 = (Returns v3, w3)"
      "d (Execute select_sql) w3 = (Raises e, w4)"
      "init_db d (start w) =
         (Raised e, \<lparr>world = w4, console = [msg_connecting],
            trace = [(connect_request, Returns v1),
              (SetIsolationLevel ISOLATION_LEVEL_AUTOCOMMIT, Returns v2),
              (Cursor, Returns v3),
              (Execute select_sql, Raises e)]\<rparr>)"
  | v1 w1 v2 w2 v3 w3 v4 w4 e w5 where
      "d connect_request w = (Returns v1, w1)"
      "d (SetIsolationLevel ISOLATION_LEVEL_AUTOCOMMIT) w1 = (Returns v2, w2)"
      "d Cursor w2 = (Returns v3, w3)"
      "d (Execute select_sql) w3 = (Returns v4, w4)"
      "d Fetchone w4 = (Raises e, w5)"
      "init_db d (start w) =
         (Raised e, \<lparr>world = w5, console = [msg_connecting],
            trace = [(connect_request, Returns v1),
              (SetIsolationLevel ISOLATION_LEVEL_AUTOCOMMIT, Returns v2),
              (Cursor, Returns v3),
              (Execute select_sql, Returns v4),
              (Fetchone, Raises e)]\<rparr>)"
  | v1 w1 v2 w2 v3 w3 v4 w4 w5 e w6 where
      "d connect_request w = (Returns v1, w1)"
      "d (SetIsolationLevel ISOLATION_LEVEL_AUTOCOMMIT) w1 = (Returns v2, w2)"
      "d Cursor w2 = (Returns v3, w3)"
      "d (Execute select_sql) w3 = (Returns v4, w4)"
      "d Fetchone w4 = (Returns None, w5)"
      "d (Execute create_sql) w5 = (Raises e, w6)"
      "init_db d (start w) =
         (Raised e, \<lparr>world = w6, console = [msg_connecting, msg_creating],
            trace = [(connect_request, Returns v1),
              (SetIsolationLevel ISOLATION_LEVEL_AUTOCOMMIT, Returns v2),
              (Cursor, Returns v3),
              (Execute select_sql, Returns v4),
              (Fetchone, Returns None),
              (Execute create_sql, Raises e)]\<rparr>)"
  | v1 w1 v2 w2 v3 w3 v4 w4 w5 v6 w6 e w7 where
      "d connect_request w = (Returns v1, w1)"
      "d (SetIsolationLevel ISOLATION_LEVEL_AUTOCOMMIT) w1 = (Returns v2, w2)"
      "d Cursor w2 = (Returns v3, w3)"
      "d (Execute select_sql) w3 = (Returns v4, w4)"
      "d Fetchone w4 = (Returns None, w5)"
      "d (Execute create_sql) w5 = (Returns v6, w6)"
      "d CursorClose w6 = (Raises e, w7)"
      "init_db d (start w) =
         (Raised e, \<lparr>world = w7, console = [msg_connecting, msg_creating, msg_created],
            trace = [(connect_request, Returns v1),
              (SetIsolationLevel ISOLATION_LEVEL_AUTOCOMMIT, Returns v2),
              (Cursor, Returns v3),
              (Execute select_sql, Returns v4),
              (Fetchone, Returns None),
              (Execute create_sql, Returns v6),
              (CursorClose, Raises e)]\<rparr>)"
  | v1 w1 v2 w2 v3 w3 v4 w4 w5 v6 w6 v7 w7 e w8 where
      "d connect_request w = (Returns v1, w1)"
      "d (SetIsolationLevel ISOLATION_LEVEL_AUTOCOMMIT) w1 = (Returns v2, w2)"
      "d Cursor w2 = (Returns v3, w3)"
      "d (Execute select_sql) w3 = (Returns v4, w4)"
      "d Fetchone w4 = (Returns None, w5)"
      "d (Execute create_sql) w5 = (Returns v6, w6)"
      "d CursorClose w6 = (Returns v7, w7)"
      "d ConnectionClose w7 = (Raises e, w8)"
      "init_db d (start w) =
         (Raised e, \<lparr>world = w8, console = [msg_connecting, msg_creating, msg_created],
            trace = [(connect_request, Returns v1),
              (SetIsolationLevel ISOLATION_LEVEL_AUTOCOMMIT, Returns v2),
              (Cursor, Returns v3),
              (Execute select_sql, Returns v4),
              (Fetchone, Returns None),
              (Execute create_sql, Returns v6),
              (CursorClose, Returns v7),
              (ConnectionClose, Raises e)]\<rparr>)"
  | v1 w1 v2 w2 v3 w3 v4 w4 w5 v6 w6 v7 w7 v8 w8 where
      "d connect_request w = (Returns v1, w1)"
      "d (SetIsolationLevel ISOLATION_LEVEL_AUTOCOMMIT) w1 = (Returns v2, w2)"
      "d Cursor w2 = (Returns v3, w3)"
      "d (Execute select_sql) w3 = (Returns v4, w4)"
      "d Fetchone w4 = (Returns None, w5)"
      "d (Execute create_sql) w5 = (Returns v6, w6)"
      "d CursorClose w6 = (Returns v7, w7)"
      "d ConnectionClose w7 = (Returns v8, w8)"
      "init_db d (start w) =
         (Returned, \<lparr>world = w8, console = [msg_connecting, msg_creating, msg_created, msg_done],
            trace = [(connect_request, Returns v1),
              (SetIsolationLevel ISOLATION_LEVEL_AUTOCOMMIT, Returns v2),
              (Cursor, Returns v3),
              (Execute select_sql, Returns v4),
              (Fetchone, Returns None),
              (Execute create_sql, Returns v6),
              (CursorClose, Returns v7),
              (ConnectionClose, Returns v8)]\<rparr>)"
  | v1 w1 v2 w2 v3 w3 v4 w4 r w5 e w7 where
      "d connect_request w = (Returns v1, w1)"
      "d (SetIsolationLevel ISOLATION_LEVEL_AUTOCOMMIT) w1 = (Returns v2, w2)"
      "d Cursor w2 = (Returns v3, w3)"
      "d (Execute select_sql) w3 = (Returns v4, w4)"
      "d Fetchone w4 = (Returns (Some r), w5)"
      "d CursorClose w5 = (Raises e, w7)"
      "init_db d (start w) =
         (Raised e, \<lparr>world = w7, console = [msg_connecting, msg_exists],
            trace = [(connect_request, Returns v1),
              (SetIsolationLevel ISOLATION_LEVEL_AUTOCOMMIT, Returns v2),
              (Cursor, Returns v3),
              (Execute select_sql, Returns v4),
              (Fetchone, Returns (Some r)),
              (CursorClose, Raises e)]\<rparr>)"
  | v1 w1 v2 w2 v3 w3 v4 w4 r w5 v7 w7 e w8 where
      "d connect_request w = (Returns v1, w1)"
      "d (SetIsolationLevel ISOLATION_LEVEL_AUTOCOMMIT) w1 = (Returns v2, w2)"
      "d Cursor w2 = (Returns v3, w3)"
      "d (Execute select_sql) w3 = (Returns v4, w4)"
      "d Fetchone w4 = (Returns (Some r), w5)"
      "d CursorClose w5 = (Returns v7, w7)"
      "d ConnectionClose w7 = (Raises e, w8)"
      "init_db d (start w) =
         (Raised e, \<lparr>world = w8, console = [msg_connecting, msg_exists],
            trace = [(connect_request, Returns v1),
              (SetIsolationLevel ISOLATION_LEVEL_AUTOCOMMIT, Returns v2),
              (Cursor, Returns v3),
              (Execute select_sql, Returns v4),
              (Fetchone, Returns (Some r)),
              (CursorClose, Returns v7),
              (ConnectionClose, Raises e)]\<rparr>)"
  | v1 w1 v2 w2 v3 w3 v4 w4 r w5 v7 w7 v8 w8 where
      "d connect_request w = (Returns v1, w1)"
      "d (SetIsolationLevel ISOLATION_LEVEL_AUTOCOMMIT) w1 = (Returns v2, w2)"
      "d Cursor w2 = (Returns v3, w3)"
      "d (Execute select_sql) w3 = (Returns v4, w4)"
      "d Fetchone w4 = (Returns (Some r), w5)"
      "d CursorClose w5 = (Returns v7, w7)"
      "d ConnectionClose w7 = (Returns v8, w8)"
      "init_db d (start w) =
         (Returned, \<lparr>world = w8, console = [msg_connecting, msg_exists, msg_done],
            trace = [(connect_request, Returns v1),
              (SetIsolationLevel ISOLATION_LEVEL_AUTOCOMMIT, Returns v2),
              (Cursor, Returns v3),
              (Execute select_sql, Returns v4),
              (Fetchone, Returns (Some r)),
              (CursorClose, Returns v7),
              (ConnectionClose, Returns v8)]\<rparr>)"
proof -
  note body = init_db_def connect_block_def check_and_create_def release_def invoke_def
    print_def start_def
  obtain r1 w1 where a1: "d connect_request w = (r1, w1)" by fastforce
  obtain r2 w2 where a2: "d (SetIsolationLevel ISOLATION_LEVEL_AUTOCOMMIT) w1 = (r2, w2)"
    by fastforce
  obtain r3 w3 where a3: "d Cursor w2 = (r3, w3)" by fastforce
  obtain r4 w4 where a4: "d (Execute select_sql) w3 = (r4, w4)" by fastforce
  obtain r5 w5 where a5: "d Fetchone w4 = (r5, w5)" by fastforce
  obtain r6 w6 where a6: "d (Execute create_sql) w5 = (r6, w6)" by fastforce
  obtain r7 w7 where a7: "d CursorClose w6 = (r7, w7)" by fastforce
  obtain r8 w8 where a8: "d ConnectionClose w7 = (r8, w8)" by fastforce
  obtain t7 u7 where b7: "d CursorClose w5 = (t7, u7)" by fastforce
  obtain t8 u8 where b8: "d ConnectionClose u7 = (t8, u8)" by fastforce
  show thesis
  proof (cases r1)
    case (Raises e)
    with a1 show thesis
      by (intro that(1)[of e w1]) (simp_all add: body)
  next
    case c1: (Returns v1)
    show thesis
    proof (cases r2)
      case (Raises e)
      with a1 a2 c1 show thesis
        by (intro that(2)[of v1 w1 e w2]) (simp_all add: body)
    next
      case c2: (Returns v2)
      show thesis
      proof (cases r3)
        case (Raises e)
        with a1 a2 a3 c1 c2 show thesis
          by (intro that(3)[of v1 w1 v2 w2 e w3]) (simp_all add: body)
      next
        case c3: (Returns v3)
        note opened = a1 a2 a3 c1 c2 c3
        show thesis
        proof (cases r4)
          case (Raises e)
          with opened a4 show thesis
            by (intro that(4)[of v1 w1 v2 w2 v3 w3 e w4]) (simp_all add: body)
        next
          case c4: (Returns v4)
          show thesis
          proof (cases r5)
            case (Raises e)
            with opened a4 a5 c4 show thesis
              by (intro that(5)[of v1 w1 v2 w2 v3 w3 v4 w4 e w5]) (simp_all add: body)
          next
            case c5: (Returns x)
            note queried = opened a4 a5 c4 c5
            show thesis
            proof (cases x)
              case None
              show thesis
              proof (cases r6)
                case (Raises e)
                with queried None a6 show thesis
                  by (intro that(6)[of v1 w1 v2 w2 v3 w3 v4 w4 w5 e w6]) (simp_all add: body)
              next
                case c6: (Returns v6)
                show thesis
                proof (cases r7)
                  case (Raises e)
                  with queried None a6 a7 c6 show thesis
                    by (intro that(7)[of v1 w1 v2 w2 v3 w3 v4 w4 w5 v6 w6 e w7])
                      (simp_all add: body)
                next
                  case c7: (Returns v7)
                  show thesis
                  proof (cases r8)
                    case (Raises e)
                    with queried None a6 a7 a8 c6 c7 show thesis
                      by (intro that(8)[of v1 w1 v2 w2 v3 w3 v4 w4 w5 v6 w6 v7 w7 e w8])
                        (simp_all add: body)
                  next
                    case (Returns v8)
                    with queried None a6 a7 a8 c6 c7 show thesis
                      by (intro that(9)[of v1 w1 v2 w2 v3 w3 v4 w4 w5 v6 w6 v7 w7 v8 w8])
                        (simp_all add: body)
                  qed
                qed
              qed
            next
              case (Some r)
              show thesis
              proof (cases t7)
                case (Raises e)
                with queried Some b7 show thesis
                  by (intro that(10)[of v1 w1 v2 w2 v3 w3 v4 w4 r w5 e u7]) (simp_all add: body)
              next
                case d7: (Returns v7)
                show thesis
                proof (cases t8)
                  case (Raises e)
                  with queried Some b7 b8 d7 show thesis
                    by (intro that(11)[of v1 w1 v2 w2 v3 w3 v4 w4 r w5 v7 u7 e u8])
                      (simp_all add: body)
                next
                  case (Returns v8)
                  with queried Some b7 b8 d7 show thesis
                    by (intro that(12)[of v1 w1 v2 w2 v3 w3 v4 w4 r w5 v7 u7 v8 u8])
                      (simp_all add: body)
                qed
              qed
            qed
          qed
        qed
      qed
    qed
  qed
qed

subsection \<open>Consequences of the assumptions on the server\<close>

lemma honors_frame:
  "honors d dbs \<Longrightarrow> \<not> is_execute c \<Longrightarrow> dbs (snd (d c w)) = dbs w"
  by (simp add: honors_def)

lemma honors_select_frame:
  "honors d dbs \<Longrightarrow> dbs (snd (d (Execute select_sql) w)) = dbs w"
  by (simp add: honors_def)

lemma honors_create:
  assumes "honors d dbs"
  shows "dbs (snd (d (Execute create_sql) w)) =
     (if is_raise (fst (d (Execute create_sql) w)) then dbs w else insert TARGET_DB (dbs w))"
proof (cases "d (Execute create_sql) w")
  case (Pair r w')
  with assms show ?thesis
    unfolding honors_def by (cases r) auto
qed

lemma honors_fetch:
  assumes "honors d dbs"
    and "fst (d (Execute select_sql) w) = Returns v"
    and "fst (d Fetchone (snd (d (Execute select_sql) w))) = Returns r"
  shows "(r \<noteq> None) = (TARGET_DB \<in> dbs w)"
proof -
  obtain w' w'' where "d (Execute select_sql) w = (Returns v, w')"
    and "d Fetchone w' = (Returns r, w'')"
    using assms(2,3) by (metis prod.collapse)
  with assms(1) show ?thesis
    unfolding honors_def by blast
qed

lemma step_iff: "(d c w = (r, w')) = (fst (d c w) = r \<and> w' = snd (d c w))"
  by auto

text \<open>What a run does to the set of databases, on a server that honors the statements.\<close>

lemma final_dbs:
  assumes "honors d dbs"
  shows "dbs (world (snd (init_db d (start w)))) =
     (if create_sql \<in> set (statements (trace (snd (init_db d (start w)))))
         \<and> Execute create_sql \<notin> set (failed (trace (snd (init_db d (start w)))))
      then insert TARGET_DB (dbs w) else dbs w)"
proof (cases rule: init_db_paths[of d w])
qed (simp_all add: failed_def sql_differ connect_request_def,
     simp_all add: step_iff honors_frame[OF assms] honors_select_frame[OF assms]
        honors_create[OF assms])

text \<open>The row that the run fetched tells whether the target existed when the run began.\<close>

lemma fetched_row:
  assumes "honors d dbs"
    and "(Fetchone, Returns x) \<in> set (trace (snd (init_db d (start w))))"
  shows "(x \<noteq> None) = (TARGET_DB \<in> dbs w)"
  using assms(2)
proof (cases rule: init_db_paths[of d w])
qed (simp_all add: connect_request_def,
     auto simp: step_iff honors_frame[OF assms(1)] dest: honors_fetch[OF assms(1)])

subsection \<open>The reference server meets the assumptions\<close>

lemma honors_pg_sim: "honors (pg_sim cfg) pg_dbs"
  unfolding honors_def pg_dbs_def
proof (intro conjI allI impI)
  fix c :: request and w :: pg
  assume "\<not> is_execute c"
  then show "set (catalog (snd (pg_sim cfg c w))) = set (catalog w)"
    by (cases c) auto
next
  fix w :: pg
  show "set (catalog (snd (pg_sim cfg (Execute select_sql) w))) = set (catalog w)"
    by simp
next
  fix w w' w'' :: pg and v r
  assume "pg_sim cfg (Execute select_sql) w = (Returns v, w')"
    and "pg_sim cfg Fetchone w' = (Returns r, w'')"
  then show "(r \<noteq> None) = (TARGET_DB \<in> set (catalog w))"
    by (auto split: if_splits)
next
  fix w w' :: pg and v
  assume "pg_sim cfg (Execute create_sql) w = (Returns v, w')"
  then show "set (catalog w') = insert TARGET_DB (set (catalog w))"
    by (auto simp: sql_differ split: if_splits)
next
  fix w w' :: pg and e
  assume "pg_sim cfg (Execute create_sql) w = (Raises e, w')"
  then show "set (catalog w') = set (catalog w)"
    by (auto simp: sql_differ split: if_splits)
qed

lemma responsive_pg_sim: "responsive (pg_sim pg_up) pg_dbs"
  unfolding responsive_def pg_dbs_def
proof (intro conjI allI impI)
  fix c :: request and w :: pg
  assume "\<not> is_execute c"
  then show "\<not> is_raise (fst (pg_sim pg_up c w))"
    by (cases c) (auto simp: pg_up_def)
next
  fix w :: pg
  show "\<not> is_raise (fst (pg_sim pg_up (Execute select_sql) w))"
    by simp
next
  fix w :: pg
  assume "TARGET_DB \<notin> set (catalog w)"
  then show "\<not> is_raise (fst (pg_sim pg_up (Execute create_sql) w))"
    by (simp add: select_create_differ[symmetric] pg_up_def)
qed

subsection \<open>Runs on the reference server\<close>

lemmas run_defs = init_db_def connect_block_def check_and_create_def release_def invoke_def
  print_def start_def connect_request_def

lemma run_fresh:
  "init_db (pg_sim pg_up) (start fresh) =
     (Returned,
      \<lparr>world = \<lparr>catalog = [TARGET_DB, ''postgres''], pending = None\<rparr>,
       console = [msg_connecting, msg_creating, msg_created, msg_done],
       trace = [(connect_request, Returns None),
                (SetIsolationLevel ISOLATION_LEVEL_AUTOCOMMIT, Returns None),
                (Cursor, Returns None),
                (Execute select_sql, Returns None),
                (Fetchone, Returns None),
                (Execute create_sql, Returns None),
                (CursorClose, Returns None),
                (ConnectionClose, Returns None)]\<rparr>)"
  by (simp add: run_defs pg_up_def fresh_def select_create_differ[symmetric] TARGET_DB_def)

lemma run_prepared:
  "init_db (pg_sim pg_up) (start prepared) =
     (Returned,
      \<lparr>world = \<lparr>catalog = [TARGET_DB, ''postgres''], pending = None\<rparr>,
       console = [msg_connecting, msg_exists, msg_done],
       trace = [(connect_request, Returns None),
                (SetIsolationLevel ISOLATION_LEVEL_AUTOCOMMIT, Returns None),
                (Cursor, Returns None),
                (Execute select_sql, Returns None),
                (Fetchone, Returns (Some 1)),
                (CursorClose, Returns None),
                (ConnectionClose, Returns None)]\<rparr>)"
  by (simp add: run_defs pg_up_def prepared_def TARGET_DB_def)

lemma run_down:
  "init_db (pg_sim pg_down) (start fresh) =
     (SysExit 1,
      \<lparr>world = fresh,
       console = [msg_connecting, msg_connect_error (OtherError ''connection refused''), msg_tip],
       trace = [(connect_request, Raises (OtherError ''connection refused''))]\<rparr>)"
  by (simp add: run_defs pg_down_def fresh_def)

lemma run_readonly:
  "init_db (pg_sim pg_readonly) (start fresh) =
     (Raised (OtherError ''permission denied to create database''),
      \<lparr>world = fresh,
       console = [msg_connecting, msg_creating],
       trace = [(connect_request, Returns None),
                (SetIsolationLevel ISOLATION_LEVEL_AUTOCOMMIT, Returns None),
                (Cursor, Returns None),
                (Execute select_sql, Returns None),
                (Fetchone, Returns None),
                (Execute create_sql,
                 Raises (OtherError ''permission denied to create database''))]\<rparr>)"
  by (simp add: run_defs pg_readonly_def fresh_def select_create_differ[symmetric] TARGET_DB_def)

subsection \<open>The claims\<close>

text \<open>
  C3. When the driver is not installed the script is expected to print the install
  guidance of lines 54-55 and end cleanly. The import of line 1 is outside the \<^verbatim>\<open>try\<close> of
  line 51, so the script ends on the uncaught \<^verbatim>\<open>ModuleNotFoundError\<close> instead: nothing is
  printed, no driver call is made, and the exit status is 1.
\<close>

theorem script_without_driver:
  "script False d w = (Raised (ImportError msg_module_not_found), start w)
   \<and> console (snd (script False d w)) = []
   \<and> trace (snd (script False d w)) = []
   \<and> exit_status (fst (script False d w)) = 1
   \<and> msg_install \<notin> set (console (snd (script False d w)))"
  by (simp add: script_def start_def)

subsubsection \<open>The script and the routine\<close>

lemma main_trace: "trace (snd (main d s)) = trace (snd (init_db d s))"
  and main_world: "world (snd (main d s)) = world (snd (init_db d s))"
  by (auto simp: main_def print_def split: prod.splits outcome.splits exn.splits)

lemma script_trace: "trace (snd (script True d w)) = trace (snd (init_db d (start w)))"
  and script_world: "world (snd (script True d w)) = world (snd (init_db d (start w)))"
  by (simp_all add: script_def main_trace main_world)

text \<open>
  C2. On a server that honors the existence query and the creation statement, whenever
  \<^verbatim>\<open>init_db\<close> returns normally from any state of the world, the target database exists
  in the world it leaves.
\<close>

theorem target_exists_after_success:
  assumes "honors d dbs" and "fst (init_db d (start w)) = Returned"
  shows "TARGET_DB \<in> dbs (world (snd (init_db d (start w))))"
proof -
  let ?s = "snd (init_db d (start w))"
  from assms(2) consider
      (created) "(Fetchone, Returns None) \<in> set (trace ?s)"
         "create_sql \<in> set (statements (trace ?s))" "failed (trace ?s) = []"
    | (existed) r where "(Fetchone, Returns (Some r)) \<in> set (trace ?s)"
    by (cases rule: init_db_paths[of d w]) (simp_all add: failed_def connect_request_def)
  then show ?thesis
  proof cases
    case created
    then show ?thesis by (simp add: final_dbs[OF assms(1)])
  next
    case (existed r)
    from fetched_row[OF assms(1) this] have "TARGET_DB \<in> dbs w" by simp
    then show ?thesis by (simp add: final_dbs[OF assms(1)])
  qed
qed

theorem target_exists_after_success_witness:
  "fst (init_db (pg_sim pg_up) (start fresh)) = Returned
   \<and> TARGET_DB \<notin> pg_dbs fresh
   \<and> TARGET_DB \<in> pg_dbs (world (snd (init_db (pg_sim pg_up) (start fresh))))"
proof -
  have returned: "fst (init_db (pg_sim pg_up) (start fresh)) = Returned"
    by (simp add: run_fresh)
  have "TARGET_DB \<notin> pg_dbs fresh"
    by (simp add: pg_dbs_def fresh_def TARGET_DB_def)
  with returned target_exists_after_success[OF honors_pg_sim returned] show ?thesis
    by simp
qed

subsubsection \<open>Runs against a server that honors the statements\<close>

lemma responsive_returns:
  assumes "responsive d dbs"
  shows "\<not> is_execute c \<Longrightarrow> fst (d c w) \<noteq> Raises e"
    and "fst (d (Execute select_sql) w) \<noteq> Raises e"
    and "TARGET_DB \<notin> dbs w \<Longrightarrow> fst (d (Execute create_sql) w) \<noteq> Raises e"
  using assms unfolding responsive_def by (metis is_raise.simps(1))+

text \<open>A run against a responsive, honoring server on which the target is missing.\<close>

lemma run_creates:
  assumes "honors d dbs" and "responsive d dbs" and "TARGET_DB \<notin> dbs w"
  shows "fst (init_db d (start w)) = Returned"
    and "creations (trace (snd (init_db d (start w)))) = 1"
    and "console (snd (init_db d (start w))) = [msg_connecting, msg_creating, msg_created, msg_done]"
    and "dbs (world (snd (init_db d (start w)))) = insert TARGET_DB (dbs w)"
proof -
  note h = honors_frame[OF assms(1)] honors_select_frame[OF assms(1)]
  note r = responsive_returns[OF assms(2)]
  have "fst (init_db d (start w)) = Returned
     \<and> creations (trace (snd (init_db d (start w)))) = 1
     \<and> console (snd (init_db d (start w))) = [msg_connecting, msg_creating, msg_created, msg_done]
     \<and> failed (trace (snd (init_db d (start w)))) = []
     \<and> create_sql \<in> set (statements (trace (snd (init_db d (start w)))))"
    using assms(3)
  proof (cases rule: init_db_paths[of d w])
  qed (simp_all add: creations_def failed_def sql_differ connect_request_def,
       auto simp: step_iff h r dest: honors_fetch[OF assms(1)])
  then show "fst (init_db d (start w)) = Returned"
    and "creations (trace (snd (init_db d (start w)))) = 1"
    and "console (snd (init_db d (start w))) = [msg_connecting, msg_creating, msg_created, msg_done]"
    and "dbs (world (snd (init_db d (start w)))) = insert TARGET_DB (dbs w)"
    by (simp_all add: final_dbs[OF assms(1)] creations_def)
qed


text \<open>A run against a responsive, honoring server on which the target exists.\<close>

lemma run_skips:
  assumes "honors d dbs" and "responsive d dbs" and "TARGET_DB \<in> dbs w"
  shows "fst (init_db d (start w)) = Returned"
    and "console (snd (init_db d (start w))) = [msg_connecting, msg_exists, msg_done]"
proof -
  note h = honors_frame[OF assms(1)] honors_select_frame[OF assms(1)]
  note r = responsive_returns[OF assms(2)]
  have "fst (init_db d (start w)) = Returned
     \<and> console (snd (init_db d (start w))) = [msg_connecting, msg_exists, msg_done]"
    using assms(3)
  proof (cases rule: init_db_paths[of d w])
  qed (simp_all add: connect_request_def,
       auto simp: step_iff h r dest: honors_fetch[OF assms(1)])
  then show "fst (init_db d (start w)) = Returned"
    and "console (snd (init_db d (start w))) = [msg_connecting, msg_exists, msg_done]"
    by simp_all
qed

text \<open>No creation statement is sent when the target exists.\<close>

lemma no_creation_when_present:
  assumes "honors d dbs" and "TARGET_DB \<in> dbs w"
  shows "creations (trace (snd (init_db d (start w)))) = 0"
proof -
  have "(Fetchone, Returns None) \<notin> set (trace (snd (init_db d (start w))))"
    using fetched_row[OF assms(1), of None w] assms(2) by auto
  then show ?thesis
    by (cases rule: init_db_paths[of d w])
       (simp_all add: creations_def sql_differ connect_request_def)
qed

text \<open>
  C1. On a server that honors the existence query and the creation statement: from every
  state in which the target database exists, \<^verbatim>\<open>init_db\<close> sends no creation statement.
  If the server is also responsive and the target is missing, then two runs in
  succession both return normally, the first sends exactly one creation statement, the
  second sends none and prints that the database already exists, and both leave the
  same set of databases, with the target in it.
\<close>

theorem bootstrap_idempotent:
  assumes "honors d dbs"
  shows "(TARGET_DB \<in> dbs w \<longrightarrow> creations (trace (snd (init_db d (start w)))) = 0)
    \<and> (responsive d dbs \<and> TARGET_DB \<notin> dbs w \<longrightarrow>
         (let first = init_db d (start w);
              second = init_db d (start (world (snd first)))
          in fst first = Returned
           \<and> creations (trace (snd first)) = 1
           \<and> fst second = Returned
           \<and> creations (trace (snd second)) = 0
           \<and> console (snd second) = [msg_connecting, msg_exists, msg_done]
           \<and> dbs (world (snd second)) = dbs (world (snd first))
           \<and> TARGET_DB \<in> dbs (world (snd second))))"
proof (intro conjI impI)
  assume "TARGET_DB \<in> dbs w"
  then show "creations (trace (snd (init_db d (start w)))) = 0"
    by (rule no_creation_when_present[OF assms])
next
  assume a: "responsive d dbs \<and> TARGET_DB \<notin> dbs w"
  let ?w' = "world (snd (init_db d (start w)))"
  from a have first: "fst (init_db d (start w)) = Returned"
      "creations (trace (snd (init_db d (start w)))) = 1"
      "dbs ?w' = insert TARGET_DB (dbs w)"
    using run_creates[OF assms, of w] by simp_all
  then have present: "TARGET_DB \<in> dbs ?w'" by simp
  from a have second: "fst (init_db d (start ?w')) = Returned"
      "console (snd (init_db d (start ?w'))) = [msg_connecting, msg_exists, msg_done]"
    using run_skips[OF assms _ present] by simp_all
  have none: "creations (trace (snd (init_db d (start ?w')))) = 0"
    by (rule no_creation_when_present[OF assms present])
  then have "create_sql \<notin> set (statements (trace (snd (init_db d (start ?w')))))"
    by (simp add: creations_def count_list_0_iff)
  then have "dbs (world (snd (init_db d (start ?w')))) = dbs ?w'"
    by (simp add: final_dbs[OF assms, of ?w'])
  with first second none present show "let first = init_db d (start w);
              second = init_db d (start (world (snd first)))
          in fst first = Returned
           \<and> creations (trace (snd first)) = 1
           \<and> fst second = Returned
           \<and> creations (trace (snd second)) = 0
           \<and> console (snd second) = [msg_connecting, msg_exists, msg_done]
           \<and> dbs (world (snd second)) = dbs (world (snd first))
           \<and> TARGET_DB \<in> dbs (world (snd second))"
    by (simp add: Let_def)
qed

lemma run_again:
  "init_db (pg_sim pg_up) (start (world (snd (init_db (pg_sim pg_up) (start fresh))))) =
     init_db (pg_sim pg_up) (start prepared)"
  by (simp add: run_fresh prepared_def TARGET_DB_def)

theorem bootstrap_idempotent_witness:
  "TARGET_DB \<in> pg_dbs prepared
   \<and> creations (trace (snd (init_db (pg_sim pg_up) (start prepared)))) = 0
   \<and> TARGET_DB \<notin> pg_dbs fresh
   \<and> fst (init_db (pg_sim pg_up) (start fresh)) = Returned
   \<and> creations (trace (snd (init_db (pg_sim pg_up) (start fresh)))) = 1
   \<and> fst (init_db (pg_sim pg_up) (start prepared)) = Returned
   \<and> console (snd (init_db (pg_sim pg_up) (start prepared))) =
       [msg_connecting, msg_exists, msg_done]"
proof -
  have present: "TARGET_DB \<in> pg_dbs prepared"
    by (simp add: pg_dbs_def prepared_def TARGET_DB_def)
  have absent: "TARGET_DB \<notin> pg_dbs fresh"
    by (simp add: pg_dbs_def fresh_def TARGET_DB_def)
  from bootstrap_idempotent[OF honors_pg_sim, of prepared pg_up] present
  have one: "creations (trace (snd (init_db (pg_sim pg_up) (start prepared)))) = 0"
    by simp
  from bootstrap_idempotent[OF honors_pg_sim, of fresh pg_up] responsive_pg_sim absent
  have two: "fst (init_db (pg_sim pg_up) (start fresh)) = Returned
     \<and> creations (trace (snd (init_db (pg_sim pg_up) (start fresh)))) = 1
     \<and> fst (init_db (pg_sim pg_up) (start prepared)) = Returned
     \<and> console (snd (init_db (pg_sim pg_up) (start prepared))) =
         [msg_connecting, msg_exists, msg_done]"
    by (simp add: Let_def run_again)
  from present absent one two show ?thesis by simp
qed

text \<open>
  C6. In every run of the script, each statement is sent on a connection that a
  returned \<^verbatim>\<open>set_isolation_level(ISOLATION_LEVEL_AUTOCOMMIT)\<close> has put in autocommit mode
  before; in particular the creation statement is never sent outside autocommit mode.
\<close>

theorem autocommit_before_statements:
  "(\<forall>(q, ac) \<in> set (modes False (trace (snd (script installed d w)))). ac)
   \<and> (create_sql, False) \<notin> set (modes False (trace (snd (script installed d w))))"
proof (cases installed)
  case False
  then show ?thesis by (simp add: script_def start_def)
next
  case True
  have "(\<forall>(q, ac) \<in> set (modes False (trace (snd (init_db d (start w))))). ac)
     \<and> (create_sql, False) \<notin> set (modes False (trace (snd (init_db d (start w)))))"
    by (cases rule: init_db_paths[of d w]) (simp_all add: connect_request_def)
  with True show ?thesis by (simp add: script_trace)
qed

theorem autocommit_before_statements_witness:
  "modes False (trace (snd (script True (pg_sim pg_up) fresh))) =
     [(select_sql, True), (create_sql, True)]
   \<and> (create_sql, False) \<notin> set (modes False (trace (snd (script True (pg_sim pg_up) fresh))))"
  using autocommit_before_statements[of True "pg_sim pg_up" fresh]
  by (simp add: script_trace run_fresh connect_request_def)

text \<open>
  C7. \<^verbatim>\<open>init_db\<close> sends the creation statement exactly when \<^verbatim>\<open>fetchone\<close> returned no row
  for the existence query. With no row it sends the statement once, prints that it is
  creating, and prints the success line exactly when the statement did not raise; with
  a row it sends no creation statement and prints that the database already exists.
\<close>

theorem create_iff_no_row:
  "let s = snd (init_db d (start w)) in
     ((create_sql \<in> set (statements (trace s))) = ((Fetchone, Returns None) \<in> set (trace s)))
   \<and> ((Fetchone, Returns None) \<in> set (trace s) \<longrightarrow>
         creations (trace s) = 1 \<and> msg_creating \<in> set (console s) \<and> msg_exists \<notin> set (console s)
         \<and> ((msg_created \<in> set (console s)) = (Execute create_sql \<notin> set (failed (trace s)))))
   \<and> (\<forall>r. (Fetchone, Returns (Some r)) \<in> set (trace s) \<longrightarrow>
         creations (trace s) = 0 \<and> msg_exists \<in> set (console s)
         \<and> msg_creating \<notin> set (console s) \<and> msg_created \<notin> set (console s))"
  unfolding Let_def
  by (cases rule: init_db_paths[of d w])
     (simp_all add: connect_request_def sql_differ msg_differ creations_def failed_def)

theorem create_iff_no_row_witness:
  "(Fetchone, Returns None) \<in> set (trace (snd (init_db (pg_sim pg_up) (start fresh))))
   \<and> create_sql \<in> set (statements (trace (snd (init_db (pg_sim pg_up) (start fresh)))))
   \<and> msg_created \<in> set (console (snd (init_db (pg_sim pg_up) (start fresh))))
   \<and> (Fetchone, Returns (Some 1)) \<in> set (trace (snd (init_db (pg_sim pg_up) (start prepared))))
   \<and> create_sql \<notin> set (statements (trace (snd (init_db (pg_sim pg_up) (start prepared)))))
   \<and> msg_exists \<in> set (console (snd (init_db (pg_sim pg_up) (start prepared))))"
proof -
  have a: "(Fetchone, Returns None) \<in> set (trace (snd (init_db (pg_sim pg_up) (start fresh))))"
    by (simp add: run_fresh connect_request_def)
  have b: "(Fetchone, Returns (Some 1)) \<in> set (trace (snd (init_db (pg_sim pg_up) (start prepared))))"
    by (simp add: run_prepared connect_request_def)
  have c: "Execute create_sql \<notin> set (failed (trace (snd (init_db (pg_sim pg_up) (start fresh)))))"
    by (simp add: run_fresh failed_def connect_request_def)
  from create_iff_no_row[of "pg_sim pg_up" fresh] a c
  have one: "create_sql \<in> set (statements (trace (snd (init_db (pg_sim pg_up) (start fresh)))))
     \<and> msg_created \<in> set (console (snd (init_db (pg_sim pg_up) (start fresh))))"
    by (simp add: Let_def)
  have "(Fetchone, Returns None) \<notin> set (trace (snd (init_db (pg_sim pg_up) (start prepared))))"
    by (simp add: run_prepared connect_request_def)
  with create_iff_no_row[of "pg_sim pg_up" prepared] b
  have two: "create_sql \<notin> set (statements (trace (snd (init_db (pg_sim pg_up) (start prepared)))))
     \<and> msg_exists \<in> set (console (snd (init_db (pg_sim pg_up) (start prepared))))"
    unfolding Let_def by blast
  from a b one two show ?thesis by simp
qed

lemma script_outcome:
  "fst (script True d w) =
     (case fst (init_db d (start w)) of
        Raised (ImportError m) \<Rightarrow> Returned
      | oc \<Rightarrow> oc)"
  by (simp add: script_def main_def split: prod.splits outcome.splits exn.splits)

lemma script_console:
  "console (snd (script True d w)) =
     (case fst (init_db d (start w)) of
        Raised (ImportError m) \<Rightarrow> console (snd (init_db d (start w))) @ [msg_no_module, msg_install]
      | oc \<Rightarrow> console (snd (init_db d (start w))))"
  by (simp add: script_def main_def print_def split: prod.splits outcome.splits exn.splits)

text \<open>
  C9. In every run of the script the statements sent are none, the existence query
  alone, or the existence query followed by one creation statement; the two are the
  fixed texts for the target \<^verbatim>\<open>idem_test\<close>. On a server that honors them, the databases
  other than the target are the same after the run as before it.
\<close>

theorem only_two_statements:
  "let s = snd (script installed d w) in
     statements (trace s) \<in>
       {[], [select_sql], [select_sql, create_sql]}
   \<and> select_sql = ''SELECT 1 FROM pg_catalog.pg_database WHERE datname = 'idem_test'' @ [CHR 0x27]
   \<and> create_sql = ''CREATE DATABASE idem_test''
   \<and> creations (trace s) \<le> 1
   \<and> (installed \<and> honors d dbs \<longrightarrow> dbs (world s) - {TARGET_DB} = dbs w - {TARGET_DB})
   \<and> (\<not> installed \<longrightarrow> world s = w)"
proof (cases installed)
  case False
  then show ?thesis
    by (simp add: script_def start_def creations_def select_sql_text create_sql_text)
next
  case True
  have "statements (trace (snd (init_db d (start w)))) \<in>
       {[], [select_sql], [select_sql, create_sql]}
     \<and> creations (trace (snd (init_db d (start w)))) \<le> 1"
    by (cases rule: init_db_paths[of d w])
       (simp_all add: connect_request_def creations_def sql_differ)
  moreover have "dbs (world (snd (init_db d (start w)))) - {TARGET_DB} = dbs w - {TARGET_DB}"
    if "honors d dbs"
    by (simp add: final_dbs[OF that])
  ultimately show ?thesis
    using True select_sql_text create_sql_text
    by (simp add: Let_def script_trace script_world)
qed

theorem only_two_statements_witness:
  "statements (trace (snd (script True (pg_sim pg_up) fresh))) = [select_sql, create_sql]
   \<and> pg_dbs (world (snd (script True (pg_sim pg_up) fresh))) - {TARGET_DB}
       = pg_dbs fresh - {TARGET_DB}
   \<and> pg_dbs fresh = {''postgres''}
   \<and> world (snd (script False (pg_sim pg_up) fresh)) = fresh"
proof -
  have a: "statements (trace (snd (script True (pg_sim pg_up) fresh))) = [select_sql, create_sql]"
    by (simp add: script_trace run_fresh connect_request_def)
  have b: "pg_dbs fresh = {''postgres''}"
    by (simp add: pg_dbs_def fresh_def)
  from only_two_statements[of True "pg_sim pg_up" fresh pg_dbs] honors_pg_sim[of pg_up]
  have c: "pg_dbs (world (snd (script True (pg_sim pg_up) fresh))) - {TARGET_DB}
       = pg_dbs fresh - {TARGET_DB}"
    by (simp add: Let_def)
  from only_two_statements[of False "pg_sim pg_up" fresh pg_dbs]
  have d: "world (snd (script False (pg_sim pg_up) fresh)) = fresh"
    by (simp add: Let_def)
  from a b c d show ?thesis by simp
qed

subsubsection \<open>Exceptions after the connection block\<close>

text \<open>
  An exception that is not an \<^verbatim>\<open>ImportError\<close>, raised by a call after the connection
  block, leaves \<^verbatim>\<open>init_db\<close> and the script: the raising call is the last call made and
  the only one that raised. No call is made twice.
\<close>

lemma other_exceptions_propagate:
  "let r = script True d w; tr = trace (snd r) in
     (\<forall>c e. (c, Raises e) \<in> set tr \<and> \<not> setup_request c \<and> \<not> is_import_error e \<longrightarrow>
        fst r = Raised e \<and> exit_status (fst r) = 1 \<and> last tr = (c, Raises e)
        \<and> failed tr = [c] \<and> msg_done \<notin> set (console (snd r)))
   \<and> distinct (requests tr)"
proof -
  let ?r = "init_db d (start w)"
  have key: "fst ?r = Raised e \<and> last (trace (snd ?r)) = (c, Raises e)
       \<and> failed (trace (snd ?r)) = [c] \<and> msg_done \<notin> set (console (snd ?r))"
    if "(c, Raises e) \<in> set (trace (snd ?r))" and "\<not> setup_request c" for c e
    using that
    by (cases rule: init_db_paths[of d w])
       (auto simp: connect_request_def failed_def msg_differ)
  have no_retry: "distinct (requests (trace (snd ?r)))"
    by (cases rule: init_db_paths[of d w])
       (simp_all add: connect_request_def requests_def sql_differ)
  show ?thesis
    unfolding Let_def script_trace
  proof (intro conjI allI impI)
    fix c e
    assume a: "(c, Raises e) \<in> set (trace (snd ?r)) \<and> \<not> setup_request c \<and> \<not> is_import_error e"
    with key[of c e] have k: "fst ?r = Raised e" "last (trace (snd ?r)) = (c, Raises e)"
      "failed (trace (snd ?r)) = [c]" "msg_done \<notin> set (console (snd ?r))"
      by simp_all
    from a obtain m where e: "e = OtherError m" by (cases e) simp_all
    from k e show "fst (script True d w) = Raised e" by (simp add: script_outcome)
    then show "exit_status (fst (script True d w)) = 1" by simp
    from k show "last (trace (snd ?r)) = (c, Raises e)" by simp
    from k show "failed (trace (snd ?r)) = [c]" by simp
    from k e show "msg_done \<notin> set (console (snd (script True d w)))"
      by (simp add: script_console)
  next
    show "distinct (requests (trace (snd ?r)))" by (rule no_retry)
  qed
qed



subsubsection \<open>Exit status\<close>

text \<open>
  C4 says that the exit status is 1 exactly when opening the connection fails. On the
  reference server whose user may not create databases every call of the connection block
  returns, the creation statement raises, nothing catches the exception, and the status
  is 1.
\<close>

theorem exit_status_not_only_connection_counterexample:
  "(connect_request, Returns None) \<in> set (trace (snd (script True (pg_sim pg_readonly) fresh)))
   \<and> failed (trace (snd (script True (pg_sim pg_readonly) fresh))) = [Execute create_sql]
   \<and> fst (script True (pg_sim pg_readonly) fresh) =
       Raised (OtherError ''permission denied to create database'')
   \<and> exit_status (fst (script True (pg_sim pg_readonly) fresh)) = 1"
  by (simp add: script_trace script_outcome run_readonly failed_def connect_request_def)

text \<open>
  C4, as the code has it. In every run of the script, with or without the driver: when a
  call of the connection block raises, the run prints the error line and the hint and
  ends by \<^verbatim>\<open>sys.exit(1)\<close>, with status 1, and no statement has been sent; \<^verbatim>\<open>sys.exit(1)\<close>
  is reached in no other way. When the routine ran and no call raised, the run ends
  normally with status 0, also when it found the target database. The status is 1 only
  when the connection block failed or the process ended on an exception that nothing
  caught.
\<close>

theorem exit_status_of_runs:
  "let r = script installed d w; tr = trace (snd r) in
     (\<forall>c e. (c, Raises e) \<in> set tr \<and> setup_request c \<longrightarrow>
        fst r = SysExit 1 \<and> exit_status (fst r) = 1
        \<and> console (snd r) = [msg_connecting, msg_connect_error e, msg_tip]
        \<and> statements tr = [] \<and> failed tr = [c])
   \<and> (fst r = SysExit 1 \<longrightarrow> list_ex setup_request (failed tr))
   \<and> (tr \<noteq> [] \<and> failed tr = [] \<longrightarrow>
        fst r = Returned \<and> exit_status (fst r) = 0 \<and> last (console (snd r)) = msg_done)
   \<and> (msg_exists \<in> set (console (snd r)) \<and> failed tr = [] \<longrightarrow> exit_status (fst r) = 0)
   \<and> (exit_status (fst r) = 1 \<longrightarrow> list_ex setup_request (failed tr) \<or> uncaught (fst r))"
proof (cases installed)
  case False
  then show ?thesis
    by (simp add: script_def start_def failed_def)
next
  case True
  have "(\<forall>c e. (c, Raises e) \<in> set (trace (snd (script True d w))) \<and> setup_request c \<longrightarrow>
        fst (script True d w) = SysExit 1 \<and> exit_status (fst (script True d w)) = 1
        \<and> console (snd (script True d w)) = [msg_connecting, msg_connect_error e, msg_tip]
        \<and> statements (trace (snd (script True d w))) = []
        \<and> failed (trace (snd (script True d w))) = [c])
   \<and> (fst (script True d w) = SysExit 1 \<longrightarrow>
        list_ex setup_request (failed (trace (snd (script True d w)))))
   \<and> (trace (snd (script True d w)) \<noteq> [] \<and> failed (trace (snd (script True d w))) = [] \<longrightarrow>
        fst (script True d w) = Returned \<and> exit_status (fst (script True d w)) = 0
        \<and> last (console (snd (script True d w))) = msg_done)
   \<and> (msg_exists \<in> set (console (snd (script True d w)))
        \<and> failed (trace (snd (script True d w))) = [] \<longrightarrow>
        exit_status (fst (script True d w)) = 0)
   \<and> (exit_status (fst (script True d w)) = 1 \<longrightarrow>
        list_ex setup_request (failed (trace (snd (script True d w))))
        \<or> uncaught (fst (script True d w)))"
    unfolding script_trace script_outcome script_console
  proof (cases rule: init_db_paths[of d w])
  qed (auto simp: failed_def connect_request_def split: exn.splits)
  with True show ?thesis by (simp add: Let_def)
qed

theorem exit_status_of_runs_witness:
  "(connect_request, Raises (OtherError ''connection refused''))
      \<in> set (trace (snd (script True (pg_sim pg_down) fresh)))
   \<and> fst (script True (pg_sim pg_down) fresh) = SysExit 1
   \<and> exit_status (fst (script True (pg_sim pg_down) fresh)) = 1
   \<and> statements (trace (snd (script True (pg_sim pg_down) fresh))) = []
   \<and> trace (snd (script True (pg_sim pg_up) prepared)) \<noteq> []
   \<and> failed (trace (snd (script True (pg_sim pg_up) prepared))) = []
   \<and> msg_exists \<in> set (console (snd (script True (pg_sim pg_up) prepared)))
   \<and> exit_status (fst (script True (pg_sim pg_up) prepared)) = 0
   \<and> exit_status (fst (script False (pg_sim pg_up) fresh)) = 1
   \<and> uncaught (fst (script False (pg_sim pg_up) fresh))"
proof -
  have a: "(connect_request, Raises (OtherError ''connection refused''))
      \<in> set (trace (snd (script True (pg_sim pg_down) fresh)))"
    by (simp add: script_trace run_down)
  have s: "setup_request connect_request"
    by (simp add: connect_request_def)
  have b: "trace (snd (script True (pg_sim pg_up) prepared)) \<noteq> []"
    "failed (trace (snd (script True (pg_sim pg_up) prepared))) = []"
    by (simp_all add: script_trace run_prepared failed_def)
  have c: "msg_exists \<in> set (console (snd (script True (pg_sim pg_up) prepared)))"
    by (simp add: script_console run_prepared)
  have f: "exit_status (fst (script False (pg_sim pg_up) fresh)) = 1"
    "failed (trace (snd (script False (pg_sim pg_up) fresh))) = []"
    by (simp_all add: script_def start_def failed_def)
  from exit_status_of_runs[of True "pg_sim pg_down" fresh] a s
  have d: "fst (script True (pg_sim pg_down) fresh) = SysExit 1
     \<and> exit_status (fst (script True (pg_sim pg_down) fresh)) = 1
     \<and> statements (trace (snd (script True (pg_sim pg_down) fresh))) = []"
    unfolding Let_def by blast
  from exit_status_of_runs[of True "pg_sim pg_up" prepared] b
  have e: "exit_status (fst (script True (pg_sim pg_up) prepared)) = 0"
    by (simp add: Let_def)
  from exit_status_of_runs[of False "pg_sim pg_up" fresh] f
  have g: "uncaught (fst (script False (pg_sim pg_up) fresh))"
    by (simp add: Let_def)
  from a b c d e f g show ?thesis by simp
qed

subsubsection \<open>Release of the connection\<close>

text \<open>
  C5 says that the cursor and the connection are released on every exit path that
  reaches the check/create step. When the creation statement raises, the routine ends
  without a call to either \<^verbatim>\<open>close\<close>: lines 42-43 are not in a \<^verbatim>\<open>finally\<close>.
\<close>

theorem connection_not_released_counterexample:
  "requests (trace (snd (init_db (pg_sim pg_readonly) (start fresh)))) =
     [connect_request, SetIsolationLevel ISOLATION_LEVEL_AUTOCOMMIT, Cursor,
      Execute select_sql, Fetchone, Execute create_sql]
   \<and> failed (trace (snd (init_db (pg_sim pg_readonly) (start fresh)))) = [Execute create_sql]
   \<and> CursorClose \<notin> set (requests (trace (snd (init_db (pg_sim pg_readonly) (start fresh)))))
   \<and> ConnectionClose \<notin> set (requests (trace (snd (init_db (pg_sim pg_readonly) (start fresh)))))"
  by (simp add: run_readonly requests_def failed_def connect_request_def)

text \<open>
  C5, as the code has it. When the check/create step was reached and none of its calls
  raised, \<^verbatim>\<open>cur.close()\<close> is called and, unless it raises, \<^verbatim>\<open>conn.close()\<close> after it; on a
  normal return the two closes are the last two calls and no call raised. When the
  existence query, the fetch or the creation statement raises, the routine ends
  abnormally without calling either close.
\<close>

theorem released_when_check_completes:
  "let r = init_db d (start w); tr = trace (snd r) in
     (Execute select_sql \<in> set (requests tr) \<and> Execute select_sql \<notin> set (failed tr)
        \<and> Fetchone \<notin> set (failed tr) \<and> Execute create_sql \<notin> set (failed tr) \<longrightarrow>
          CursorClose \<in> set (requests tr)
          \<and> (CursorClose \<notin> set (failed tr) \<longrightarrow> ConnectionClose \<in> set (requests tr)))
   \<and> (fst r = Returned \<longrightarrow>
          take 2 (rev (requests tr)) = [ConnectionClose, CursorClose] \<and> failed tr = [])
   \<and> (Execute select_sql \<in> set (failed tr) \<or> Fetchone \<in> set (failed tr)
        \<or> Execute create_sql \<in> set (failed tr) \<longrightarrow>
          CursorClose \<notin> set (requests tr) \<and> ConnectionClose \<notin> set (requests tr)
          \<and> fst r \<noteq> Returned)"
  unfolding Let_def
  by (cases rule: init_db_paths[of d w])
     (simp_all add: requests_def failed_def connect_request_def sql_differ)

theorem released_when_check_completes_witness:
  "fst (init_db (pg_sim pg_up) (start fresh)) = Returned
   \<and> take 2 (rev (requests (trace (snd (init_db (pg_sim pg_up) (start fresh))))))
        = [ConnectionClose, CursorClose]
   \<and> Execute create_sql \<in> set (failed (trace (snd (init_db (pg_sim pg_readonly) (start fresh)))))
   \<and> ConnectionClose \<notin> set (requests (trace (snd (init_db (pg_sim pg_readonly) (start fresh)))))"
proof -
  have a: "fst (init_db (pg_sim pg_up) (start fresh)) = Returned"
    by (simp add: run_fresh)
  have b: "Execute create_sql \<in> set (failed (trace (snd (init_db (pg_sim pg_readonly) (start fresh)))))"
    by (simp add: run_readonly failed_def)
  from released_when_check_completes[of "pg_sim pg_up" fresh] a
  have c: "take 2 (rev (requests (trace (snd (init_db (pg_sim pg_up) (start fresh))))))
        = [ConnectionClose, CursorClose]"
    by (simp add: Let_def)
  from released_when_check_completes[of "pg_sim pg_readonly" fresh] b
  have d: "ConnectionClose \<notin> set (requests (trace (snd (init_db (pg_sim pg_readonly) (start fresh)))))"
    by (simp add: Let_def)
  from a b c d show ?thesis by simp
qed

subsubsection \<open>Determinism\<close>

lemma init_db_deterministic:
  fixes d1 :: "'a driver" and d2 :: "'b driver"
  assumes "map snd (trace (snd (init_db d1 (start w1)))) = map snd (trace (snd (init_db d2 (start w2))))"
  shows "trace (snd (init_db d1 (start w1))) = trace (snd (init_db d2 (start w2)))
     \<and> console (snd (init_db d1 (start w1))) = console (snd (init_db d2 (start w2)))
     \<and> fst (init_db d1 (start w1)) = fst (init_db d2 (start w2))"
  using assms
  by (cases rule: init_db_paths[of d1 w1]; cases rule: init_db_paths[of d2 w2]; simp)

lemma init_db_calls: "trace (snd (init_db d (start w))) \<noteq> []"
  by (cases rule: init_db_paths[of d w]) simp_all

text \<open>
  C10 says that two runs with the same connection outcome and the same result of the
  existence query do the same. On the reference server with the target missing, a user
  who may create databases and one who may not get the same replies up to the fetched
  row, then the creation statement returns for the one and raises for the other: the
  lines printed and the exit status differ.
\<close>

theorem same_connection_and_row_counterexample:
  "take 5 (trace (snd (script True (pg_sim pg_up) fresh)))
     = take 5 (trace (snd (script True (pg_sim pg_readonly) fresh)))
   \<and> (connect_request, Returns None) \<in> set (take 5 (trace (snd (script True (pg_sim pg_up) fresh))))
   \<and> (Fetchone, Returns None) \<in> set (take 5 (trace (snd (script True (pg_sim pg_up) fresh))))
   \<and> console (snd (script True (pg_sim pg_up) fresh))
       \<noteq> console (snd (script True (pg_sim pg_readonly) fresh))
   \<and> exit_status (fst (script True (pg_sim pg_up) fresh)) = 0
   \<and> exit_status (fst (script True (pg_sim pg_readonly) fresh)) = 1"
  by (simp add: script_trace script_outcome script_console run_fresh run_readonly)

text \<open>
  C10, as the code has it. Two runs of the script, against any two drivers and worlds,
  with or without the driver installed, that receive the same reply to every call they
  make (the connection, the switch to autocommit, the cursor, the existence query, the
  fetch, the creation statement and the two closes) make the same calls in the same
  order, print the same lines and end in the same way, with the same exit status.
\<close>

theorem deterministic_in_replies:
  fixes d1 :: "'a driver" and d2 :: "'b driver"
  assumes "map snd (trace (snd (script installed1 d1 w1)))
         = map snd (trace (snd (script installed2 d2 w2)))"
  shows "trace (snd (script installed1 d1 w1)) = trace (snd (script installed2 d2 w2))
     \<and> console (snd (script installed1 d1 w1)) = console (snd (script installed2 d2 w2))
     \<and> fst (script installed1 d1 w1) = fst (script installed2 d2 w2)
     \<and> exit_status (fst (script installed1 d1 w1)) = exit_status (fst (script installed2 d2 w2))"
proof -
  have absent: "trace (snd (script False d w)) = []" for d :: "'c driver" and w
    by (simp add: script_def start_def)
  show ?thesis
  proof (cases installed1; cases installed2)
    assume i: "installed1" "installed2"
    with assms have "map snd (trace (snd (init_db d1 (start w1))))
        = map snd (trace (snd (init_db d2 (start w2))))"
      by (simp add: script_trace)
    from init_db_deterministic[OF this] i show ?thesis
      by (simp add: script_trace script_outcome script_console
          split: outcome.splits exn.splits)
  next
    assume i: "installed1" "\<not> installed2"
    with assms absent[of d2 w2] init_db_calls[of d1 w1] show ?thesis
      by (simp add: script_trace)
  next
    assume i: "\<not> installed1" "installed2"
    with assms absent[of d1 w1] init_db_calls[of d2 w2] show ?thesis
      by (simp add: script_trace)
  next
    assume "\<not> installed1" "\<not> installed2"
    then show ?thesis by (simp add: script_def start_def)
  qed
qed

lemma run_prepared_readonly:
  "init_db (pg_sim pg_readonly) (start prepared) = init_db (pg_sim pg_up) (start prepared)"
  by (simp add: run_defs pg_up_def pg_readonly_def prepared_def TARGET_DB_def)

theorem deterministic_in_replies_witness:
  "map snd (trace (snd (script True (pg_sim pg_up) prepared)))
     = map snd (trace (snd (script True (pg_sim pg_readonly) prepared)))
   \<and> pg_sim pg_up \<noteq> pg_sim pg_readonly
   \<and> trace (snd (script True (pg_sim pg_up) prepared))
       = trace (snd (script True (pg_sim pg_readonly) prepared))
   \<and> console (snd (script True (pg_sim pg_up) prepared))
       = console (snd (script True (pg_sim pg_readonly) prepared))
   \<and> exit_status (fst (script True (pg_sim pg_up) prepared))
       = exit_status (fst (script True (pg_sim pg_readonly) prepared))"
proof -
  have a: "map snd (trace (snd (script True (pg_sim pg_up) prepared)))
     = map snd (trace (snd (script True (pg_sim pg_readonly) prepared)))"
    by (simp add: script_trace run_prepared_readonly)
  have "fst (pg_sim pg_up (Execute create_sql) fresh)
      \<noteq> fst (pg_sim pg_readonly (Execute create_sql) fresh)"
    by (simp add: pg_up_def pg_readonly_def fresh_def sql_differ TARGET_DB_def)
  then have b: "pg_sim pg_up \<noteq> pg_sim pg_readonly"
    by metis
  from deterministic_in_replies[OF a] a b show ?thesis by simp
qed

end
